theory Spec2Isabelle
  imports Complex_Main
begin

section \<open>The anomaly detector of \<^verbatim>\<open>services/anomaly_detector.py\<close>\<close>

text \<open>
  A shallow embedding of \<^verbatim>\<open>AnomalyDetector\<close>. Python floats and numpy \<^verbatim>\<open>float64\<close>
  values are modelled as exact reals; the one non-finite value the typed code can produce
  from finite inputs, the \<^verbatim>\<open>nan\<close> that \<^verbatim>\<open>np.mean\<close>, \<^verbatim>\<open>np.var\<close> and \<^verbatim>\<open>np.std\<close> return
  on an empty sequence, is \<open>None\<close> of type \<open>real option\<close>. Two effects of double
  precision are written out, where the range of a result depends on them: \<^verbatim>\<open>np.tanh\<close>
  returns \<open>1.0\<close> for a large argument, and the variance in \<^verbatim>\<open>_calculate_confidence\<close>
  overflows to \<^verbatim>\<open>inf\<close>. The rounding of the other operations is outside the model. A
  \<^verbatim>\<open>datetime\<close> is a number of microseconds.

  The collaborators whose code is not part of the sources (the metrics collector, the
  time-series preprocessor, the fitted scikit-learn and pyod models, the float formatting
  of f-strings) are parameters, gathered in the record \<open>env\<close>. Every call that may raise
  returns a sum, \<open>Inl\<close> the exception. The structured logger is a list of entries that
  keeps the level and the event, and the exception of an error entry.

  A method keeps its name without the leading underscore. An expression that the source
  writes inline and that a property speaks about has a definition of its own, introduced
  by the source text it stands for.
\<close>

subsection \<open>numpy and Python primitives\<close>

type_synonym npfloat = "real option"

type_synonym datetime = int

datatype py_error = IndexError | ValueError | NotFittedError | RuntimeError

datatype log_entry = LogInfo string | LogWarning string | LogError string py_error

definition np_mean :: "real list \<Rightarrow> npfloat" where
  "np_mean xs = (if xs = [] then None else Some (sum_list xs / real (length xs)))"

definition np_var :: "real list \<Rightarrow> npfloat" where
  "np_var xs =
     (case np_mean xs of
        None \<Rightarrow> None
      | Some m \<Rightarrow> np_mean (map (\<lambda>x. \<bar>x - m\<bar> ^ 2) xs))"

definition np_std :: "real list \<Rightarrow> npfloat" where
  "np_std xs = map_option sqrt (np_var xs)"


text \<open>The slice \<^verbatim>\<open>xs[-n:]\<close> for \<open>n \<ge> 0\<close>: the last \<open>n\<close> elements, and all of \<open>xs\<close>
  when \<open>n = 0\<close> (\<^verbatim>\<open>xs[-0:]\<close> is \<^verbatim>\<open>xs[0:]\<close>).\<close>

definition py_last_n :: "nat \<Rightarrow> 'a list \<Rightarrow> 'a list" where
  "py_last_n n xs = (if n = 0 then xs else drop (length xs - n) xs)"

subsection \<open>Double precision\<close>

text \<open>\<^verbatim>\<open>np.tanh\<close> on a \<^verbatim>\<open>float64\<close>. The doubles next to \<open>1\<close> are \<open>1 - 2\<^sup>-\<^sup>5\<^sup>3\<close> and \<open>1\<close>,
  so a hyperbolic tangent within \<open>2\<^sup>-\<^sup>5\<^sup>4\<close> of \<open>1\<close> is returned as \<open>1.0\<close>, which happens
  from an argument of about \<open>19.07\<close> on, and likewise at \<open>-1\<close>. The rounding of the values
  in between is not modelled.\<close>

definition np_tanh :: "real \<Rightarrow> real" where
  "np_tanh x = (if 1 - tanh x \<le> 1 / 2 ^ 54 then 1
                else if 1 + tanh x \<le> 1 / 2 ^ 54 then - 1
                else tanh x)"

text \<open>A result that leaves the range of \<^verbatim>\<open>float64\<close> and becomes \<^verbatim>\<open>inf\<close> or
  \<^verbatim>\<open>-inf\<close>.\<close>

definition f64_overflow :: "real \<Rightarrow> bool" where
  "f64_overflow v \<longleftrightarrow> \<bar>v\<bar> \<ge> 2 ^ 1024"

text \<open>\<^verbatim>\<open>np.sum\<close> adds fewer than eight values from left to right, starting from
  \<open>acc\<close>; the sum is infinite as soon as one partial sum overflows.\<close>

fun sum_overflows :: "real \<Rightarrow> real list \<Rightarrow> bool" where
  "sum_overflows acc [] = False"
| "sum_overflows acc (x # xs) = (f64_overflow (acc + x) \<or> sum_overflows (acc + x) xs)"

datatype f64 = F64 real | F64_inf | F64_nan

text \<open>\<^verbatim>\<open>np.var\<close> on fewer than eight finite values, with its overflow: the mean
  \<^verbatim>\<open>arrmean\<close>, the deviations \<^verbatim>\<open>x = arr - arrmean\<close>, their squares
  \<^verbatim>\<open>multiply(x, x)\<close> and the mean of the squares. An infinite mean makes every deviation
  infinite, an infinite deviation has an infinite square, and an infinite square makes
  the sum of the squares infinite: the result is \<^verbatim>\<open>inf\<close> when any of the steps
  overflows, and \<^verbatim>\<open>nan\<close> only for no values.\<close>

definition np_var_f64 :: "real list \<Rightarrow> f64" where
  "np_var_f64 arr =
     (if arr = [] then F64_nan
      else (let arrmean = sum_list arr / real (length arr);
                x = map (\<lambda>a. a - arrmean) arr;
                sq = map (\<lambda>d. d * d) x
            in if sum_overflows 0 arr \<or> list_ex f64_overflow x
                  \<or> list_ex f64_overflow sq \<or> sum_overflows 0 sq
               then F64_inf
               else F64 (sum_list sq / real (length arr))))"

subsection \<open>Data model\<close>

record anomaly_result =
  timestamp :: datetime
  metric_name :: string
  "value" :: real
  is_anomaly :: bool
  anomaly_score :: real
  confidence :: npfloat
  severity :: string
  description :: string
  recommendations :: "string list"


text \<open>One entry of \<^verbatim>\<open>self.thresholds\<close>.\<close>

record threshold =
  warning :: real
  critical :: real

text \<open>One dictionary appended to \<^verbatim>\<open>results\<close> by \<^verbatim>\<open>_run_ensemble_detection\<close>.\<close>

record vote =
  model :: string
  scores :: "real list"
  weight :: real

text \<open>The argument \<^verbatim>\<open>metric_data\<close>: a dictionary in which either key may be absent.\<close>

record metric_data =
  md_values :: "real list option"
  md_timestamps :: "datetime list option"

record env =
  preprocess_time_series :: "real list \<Rightarrow> py_error + real list"
  iso_decision_function :: "real list \<Rightarrow> py_error + real list"
  ae_decision_function :: "real list \<Rightarrow> py_error + real list"
  vae_decision_function :: "real list \<Rightarrow> py_error + real list"
  format_1f :: "real \<Rightarrow> string"
  format_2f :: "real \<Rightarrow> string"
  format_str :: "real \<Rightarrow> string"

text \<open>The detector's mutable state: \<^verbatim>\<open>self.data_buffer\<close>, and the log written so far.\<close>

record detector =
  data_buffer :: "string \<rightharpoonup> real list"
  log :: "log_entry list"

text \<open>\<^verbatim>\<open>metric_data.get('values', [])\<close> and \<^verbatim>\<open>metric_data.get('timestamps', [])\<close>\<close>

definition get_values :: "metric_data \<Rightarrow> real list" where
  "get_values md = (case md_values md of None \<Rightarrow> [] | Some v \<Rightarrow> v)"

definition get_timestamps :: "metric_data \<Rightarrow> datetime list" where
  "get_timestamps md = (case md_timestamps md of None \<Rightarrow> [] | Some t \<Rightarrow> t)"

definition thresholds :: "string \<rightharpoonup> threshold" where
  "thresholds = map_of
     [(''cpu'', \<lparr>warning = 7/10, critical = 9/10\<rparr>),
      (''memory'', \<lparr>warning = 75/100, critical = 9/10\<rparr>),
      (''disk'', \<lparr>warning = 8/10, critical = 95/100\<rparr>),
      (''network'', \<lparr>warning = 6/10, critical = 8/10\<rparr>),
      (''response_time'', \<lparr>warning = 65/100, critical = 85/100\<rparr>)]"

definition buffer_size :: nat where
  "buffer_size = 1000"

subsection \<open>Severity, confidence, narration\<close>

text \<open>\<^verbatim>\<open>self.thresholds.get(metric_name, {}).get('warning', 0.7)\<close>\<close>

definition warning_threshold :: "string \<Rightarrow> real" where
  "warning_threshold metric = (case thresholds metric of None \<Rightarrow> 7/10 | Some t \<Rightarrow> warning t)"

definition determine_severity :: "string \<Rightarrow> real \<Rightarrow> string" where
  "determine_severity metric score =
     (let t = (case thresholds metric of
                 None \<Rightarrow> \<lparr>warning = 7/10, critical = 9/10\<rparr>
               | Some t \<Rightarrow> t)
      in if score \<ge> critical t then ''critical''
         else if score \<ge> warning t then ''warning''
         else ''info'')"

text \<open>\<^verbatim>\<open>[result['scores'][index] for result in ensemble_results]\<close>: an index past the
  end of one of the score arrays raises.\<close>

definition scores_at :: "vote list \<Rightarrow> nat \<Rightarrow> py_error + real list" where
  "scores_at ensemble_results i =
     (if list_all (\<lambda>r. i < length (scores r)) ensemble_results
      then Inr (map (\<lambda>r. scores r ! i) ensemble_results)
      else Inl IndexError)"

text \<open>\<^verbatim>\<open>_calculate_confidence\<close>. \<^verbatim>\<open>1.0 / (1.0 + inf)\<close> is \<open>0.0\<close>. Python's
  \<^verbatim>\<open>min(confidence, 1.0)\<close> returns its first argument unless the second is smaller, so
  a \<^verbatim>\<open>nan\<close> confidence stays \<^verbatim>\<open>nan\<close>.\<close>

definition calculate_confidence :: "vote list \<Rightarrow> nat \<Rightarrow> py_error + npfloat" where
  "calculate_confidence ensemble_results i =
     (case scores_at ensemble_results i of
        Inl e \<Rightarrow> Inl e
      | Inr sc \<Rightarrow>
          (let variance = np_var_f64 sc;
               conf = (case variance of
                         F64 v \<Rightarrow> Some (1 / (1 + v))
                       | F64_inf \<Rightarrow> Some 0
                       | F64_nan \<Rightarrow> None)
           in Inr (map_option (\<lambda>c. min c 1) conf)))"

definition generate_description :: "env \<Rightarrow> string \<Rightarrow> real \<Rightarrow> real \<Rightarrow> string" where
  "generate_description ev metric v score =
     (let tail = '' (anomaly score: '' @ format_2f ev score @ '')'';
          descriptions = map_of
            [(''cpu'', ''CPU usage anomaly detected: '' @ format_1f ev v @ ''%'' @ tail),
             (''memory'', ''Memory usage anomaly detected: '' @ format_1f ev v @ ''%'' @ tail),
             (''disk'', ''Disk usage anomaly detected: '' @ format_1f ev v @ ''%'' @ tail),
             (''network'', ''Network I/O anomaly detected: '' @ format_1f ev v @ '' MB/s'' @ tail),
             (''response_time'',
                ''Response time anomaly detected: '' @ format_1f ev v @ ''ms'' @ tail)]
      in case descriptions metric of
           Some d \<Rightarrow> d
         | None \<Rightarrow> ''Anomaly detected in '' @ metric @ '': '' @ format_str ev v
                     @ '' (score: '' @ format_2f ev score @ '')'')"

definition generate_recommendations :: "string \<Rightarrow> real \<Rightarrow> string \<Rightarrow> string list" where
  "generate_recommendations metric v sev =
     (let recs = map_of
            [(''cpu'', [''Check for runaway processes'', ''Consider scaling up instances'',
                        ''Review recent deployments'', ''Monitor application performance'']),
             (''memory'', [''Check for memory leaks'', ''Review application memory usage'',
                           ''Consider increasing instance memory'',
                           ''Restart affected services if necessary'']),
             (''disk'', [''Clean up temporary files'', ''Archive old logs'',
                         ''Check for large files'', ''Consider adding storage capacity'']),
             (''network'', [''Check network connectivity'', ''Review bandwidth usage'',
                            ''Monitor for DDoS attacks'',
                            ''Verify load balancer configuration'']),
             (''response_time'', [''Check database performance'', ''Review application logs'',
                                  ''Monitor external dependencies'',
                                  ''Consider caching strategies''])];
          base = (case recs metric of Some r \<Rightarrow> r | None \<Rightarrow> [''Investigate the anomaly''])
      in if sev = ''critical'' then ''IMMEDIATE ACTION REQUIRED'' # base else base)"

subsection \<open>The ensemble\<close>

text \<open>\<^verbatim>\<open>_transformer_anomaly_detection\<close>. On an empty array the mean and the standard
  deviation are \<^verbatim>\<open>nan\<close> and the element-wise operations yield the empty array. No
  operation of the body raises on an array of floats, so its handler is not modelled.
  The mean and the standard deviation are the exact ones: the definition follows the
  code for a series on which they do not overflow.\<close>

definition transformer_anomaly_detection :: "real list \<Rightarrow> datetime list \<Rightarrow> real list" where
  "transformer_anomaly_detection data timestamps =
     (case (np_mean data, np_std data) of
        (Some mean_val, Some std_val) \<Rightarrow>
          map (\<lambda>x. np_tanh (\<bar>(x - mean_val) / (std_val + 1 / 10 ^ 8)\<bar> / 3)) data
      | _ \<Rightarrow> [])"

text \<open>\<^verbatim>\<open>_run_ensemble_detection\<close>: the votes appended before the first exception are
  kept, the exception is logged and swallowed. The preprocessed data is a one-dimensional
  array, so the reshaping to a column leaves the sequence of values as it is.\<close>

definition run_ensemble_detection ::
    "env \<Rightarrow> string \<Rightarrow> real list \<Rightarrow> datetime list \<Rightarrow> vote list \<times> log_entry list" where
  "run_ensemble_detection ev metric data timestamps =
     (case iso_decision_function ev data of
        Inl e \<Rightarrow> ([], [LogError ''Ensemble detection failed'' e])
      | Inr iso_scores \<Rightarrow>
          (let r1 = [\<lparr>model = ''isolation_forest'', scores = map uminus iso_scores,
                      weight = 3/10\<rparr>]
           in case ae_decision_function ev data of
                Inl e \<Rightarrow> (r1, [LogError ''Ensemble detection failed'' e])
              | Inr ae_scores \<Rightarrow>
                  (let r2 = r1 @ [\<lparr>model = ''autoencoder'', scores = ae_scores,
                                   weight = 3/10\<rparr>]
                   in case vae_decision_function ev data of
                        Inl e \<Rightarrow> (r2, [LogError ''Ensemble detection failed'' e])
                      | Inr vae_scores \<Rightarrow>
                          (r2 @ [\<lparr>model = ''v ae'', scores = vae_scores, weight = 2/10\<rparr>,
                                 \<lparr>model = ''transformer'',
                                  scores = transformer_anomaly_detection data timestamps,
                                  weight = 2/10\<rparr>], []))))"

subsection \<open>\<^verbatim>\<open>detect_anomalies\<close>\<close>

text \<open>\<^verbatim>\<open>np.mean([result['scores'][i] for result in ensemble_results])\<close>, the
  combined \<^verbatim>\<open>anomaly_score\<close> at index \<open>i\<close>. The mean of no scores is \<^verbatim>\<open>nan\<close>.\<close>

definition ensemble_score :: "vote list \<Rightarrow> nat \<Rightarrow> py_error + npfloat" where
  "ensemble_score ensemble_results i =
     (case scores_at ensemble_results i of
        Inl e \<Rightarrow> Inl e
      | Inr sc \<Rightarrow> Inr (np_mean sc))"

text \<open>The loop over \<^verbatim>\<open>enumerate(zip(values, timestamps))\<close>, with the list
  \<^verbatim>\<open>anomalies\<close> as accumulator. The comparison of \<^verbatim>\<open>nan\<close> with the threshold is
  false.\<close>

fun combine_results ::
    "env \<Rightarrow> string \<Rightarrow> vote list \<Rightarrow> (nat \<times> real \<times> datetime) list \<Rightarrow> anomaly_result list
      \<Rightarrow> py_error + anomaly_result list" where
  "combine_results ev metric rs [] anomalies = Inr anomalies"
| "combine_results ev metric rs ((i, v, ts) # rest) anomalies =
     (case ensemble_score rs i of
        Inl e \<Rightarrow> Inl e
      | Inr None \<Rightarrow> combine_results ev metric rs rest anomalies
      | Inr (Some score) \<Rightarrow>
          (let flag = (score > warning_threshold metric)
           in if flag then
                (let sev = determine_severity metric score
                 in case calculate_confidence rs i of
                      Inl e \<Rightarrow> Inl e
                    | Inr conf \<Rightarrow>
                        combine_results ev metric rs rest
                          (anomalies @
                           [\<lparr>timestamp = ts, metric_name = metric, value = v,
                             is_anomaly = flag, anomaly_score = score,
                             confidence = conf, severity = sev,
                             description = generate_description ev metric v score,
                             recommendations = generate_recommendations metric v sev\<rparr>]))
              else combine_results ev metric rs rest anomalies))"

text \<open>The \<^verbatim>\<open>try\<close> block of \<^verbatim>\<open>detect_anomalies\<close>: the result, or the exception that
  leaves it, and the entries logged on the way.\<close>

definition detect_anomalies_body ::
    "env \<Rightarrow> string \<Rightarrow> metric_data \<Rightarrow> (py_error + anomaly_result list) \<times> log_entry list" where
  "detect_anomalies_body ev metric md =
     (let vals = get_values md;
          timestamps = get_timestamps md
      in if length vals < 10 then (Inr [], [])
         else case preprocess_time_series ev vals of
                Inl e \<Rightarrow> (Inl e, [])
              | Inr processed_data \<Rightarrow>
                  (let (ensemble_results, lg) =
                         run_ensemble_detection ev metric processed_data timestamps
                   in (combine_results ev metric ensemble_results
                         (enumerate 0 (zip vals timestamps)) [], lg)))"

definition detect_anomalies ::
    "env \<Rightarrow> string \<Rightarrow> metric_data \<Rightarrow> anomaly_result list \<times> log_entry list" where
  "detect_anomalies ev metric md =
     (case detect_anomalies_body ev metric md of
        (Inr anomalies, lg) \<Rightarrow> (anomalies, lg)
      | (Inl e, lg) \<Rightarrow> ([], lg @ [LogError ''Anomaly detection failed'' e]))"

subsection \<open>The detection cycle\<close>

text \<open>\<^verbatim>\<open>_process_anomalies\<close>, with \<^verbatim>\<open>_create_incident\<close> and \<^verbatim>\<open>_send_alert\<close>: all
  three only write to the log.\<close>

definition process_anomalies :: "anomaly_result list \<Rightarrow> log_entry list" where
  "process_anomalies anomalies =
     concat (map (\<lambda>a. [LogWarning ''Anomaly detected'']
                        @ (if severity a = ''critical''
                           then [LogInfo ''Creating incident for critical anomaly''] else [])
                        @ [LogInfo ''Sending alert'']) anomalies)"

text \<open>One iteration of the loop of \<^verbatim>\<open>_update_models\<close>. The dictionary
  \<^verbatim>\<open>metrics_data\<close> is the list of its items in iteration order.\<close>

definition update_buffer ::
    "(string \<rightharpoonup> real list) \<Rightarrow> string \<times> metric_data \<Rightarrow> (string \<rightharpoonup> real list)" where
  "update_buffer buf item =
     (case buf (fst item) of
        None \<Rightarrow> buf
      | Some b \<Rightarrow>
          (let vals = get_values (snd item);
               b1 = b @ vals
           in buf(fst item \<mapsto>
                (if length b1 > buffer_size then py_last_n buffer_size b1 else b1))))"

definition update_models :: "detector \<Rightarrow> (string \<times> metric_data) list \<Rightarrow> detector" where
  "update_models s metrics_data =
     s\<lparr>data_buffer := foldl update_buffer (data_buffer s) metrics_data\<rparr>"

text \<open>The loop of \<^verbatim>\<open>run_detection_cycle\<close> that calls \<^verbatim>\<open>detect_anomalies\<close> on every
  metric and extends \<^verbatim>\<open>anomalies\<close>.\<close>

fun detect_all ::
    "env \<Rightarrow> (string \<times> metric_data) list \<Rightarrow> anomaly_result list \<times> log_entry list" where
  "detect_all ev [] = ([], [])"
| "detect_all ev ((metric, md) # rest) =
     (let (a, lg) = detect_anomalies ev metric md;
          (as, lgs) = detect_all ev rest
      in (a @ as, lg @ lgs))"

text \<open>\<^verbatim>\<open>run_detection_cycle\<close>; \<open>collected\<close> is what
  \<^verbatim>\<open>collect_all_metrics()\<close> returned or raised in this cycle.\<close>

definition run_detection_cycle ::
    "env \<Rightarrow> detector \<Rightarrow> py_error + (string \<times> metric_data) list \<Rightarrow> detector" where
  "run_detection_cycle ev s collected =
     (case collected of
        Inl e \<Rightarrow> s\<lparr>log := log s @ [LogError ''Anomaly detection cycle failed'' e]\<rparr>
      | Inr current_metrics \<Rightarrow>
          (let (anomalies, lg) = detect_all ev current_metrics;
               lg2 = (if anomalies \<noteq> [] then process_anomalies anomalies else []);
               s1 = update_models s current_metrics
           in s1\<lparr>log := log s @ lg @ lg2 @ [LogInfo ''Anomaly detection cycle completed'']\<rparr>))"

text \<open>\<^verbatim>\<open>run_background_tasks\<close> of \<^verbatim>\<open>main.py\<close>, run for as many iterations as the
  list has inputs. An input holds what the metrics collector and what
  \<^verbatim>\<open>process_pending_incidents()\<close> did in that iteration; an exception of the latter
  leaves the loop. The sleep between two iterations is not modelled.\<close>

fun run_background_tasks ::
    "env \<Rightarrow> detector \<Rightarrow> ((py_error + (string \<times> metric_data) list) \<times> (py_error + unit)) list
      \<Rightarrow> detector" where
  "run_background_tasks ev s [] = s"
| "run_background_tasks ev s ((collected, incidents) # rest) =
     (let s1 = run_detection_cycle ev s collected
      in case incidents of
           Inl e \<Rightarrow> s1\<lparr>log := log s1 @ [LogError ''Background task error'' e]\<rparr>
         | Inr u \<Rightarrow> run_background_tasks ev s1 rest)"

subsection \<open>Forecasting\<close>






subsection \<open>Vocabulary of the properties\<close>

text \<open>What holds of every \<^verbatim>\<open>AnomalyResult\<close> that \<^verbatim>\<open>detect_anomalies\<close> builds for a
  metric.\<close>

definition emitted_ok :: "string \<Rightarrow> anomaly_result \<Rightarrow> bool" where
  "emitted_ok metric a \<longleftrightarrow>
     is_anomaly a \<and> metric_name a = metric \<and> anomaly_score a > warning_threshold metric
     \<and> severity a = determine_severity metric (anomaly_score a)
     \<and> severity a \<noteq> ''info''
     \<and> (case confidence a of None \<Rightarrow> False | Some c \<Rightarrow> 0 \<le> c \<and> c \<le> 1)"

text \<open>A series on which the mean and the standard deviation stay within the range of
  \<^verbatim>\<open>float64\<close> in whatever order the sums are taken: the absolute values, and the squared
  deviations from the mean, add up to less than \<open>2\<^sup>1\<^sup>0\<^sup>2\<^sup>4\<close>.\<close>

definition f64_series_in_range :: "real list \<Rightarrow> bool" where
  "f64_series_in_range xs \<longleftrightarrow>
     sum_list (map abs xs) < 2 ^ 1024
     \<and> sum_list (map (\<lambda>x. (x - sum_list xs / real (length xs)) ^ 2) xs) < 2 ^ 1024"

text \<open>The values one call of \<^verbatim>\<open>_update_models\<close> inserts for a metric, in order.\<close>

definition inserted :: "string \<Rightarrow> (string \<times> metric_data) list \<Rightarrow> real list" where
  "inserted metric metrics_data =
     concat (map (\<lambda>item. get_values (snd item))
                 (filter (\<lambda>item. fst item = metric) metrics_data))"

text \<open>The last \<open>c\<close> elements of a sequence, all of it when it has no more than \<open>c\<close>.\<close>

definition keep_last :: "nat \<Rightarrow> 'a list \<Rightarrow> 'a list" where
  "keep_last c xs = drop (length xs - c) xs"


subsection \<open>Concrete inputs\<close>

text \<open>Ten equal values with ten timestamps, collaborators that return a constant score
  for every point or raise, and the detector as \<^verbatim>\<open>_load_historical_data\<close> leaves it.\<close>

definition example_values :: "real list" where
  "example_values = [50, 50, 50, 50, 50, 50, 50, 50, 50, 50]"

definition example_timestamps :: "datetime list" where
  "example_timestamps = [0, 1, 2, 3, 4, 5, 6, 7, 8, 9]"

definition example_data :: metric_data where
  "example_data = \<lparr>md_values = Some example_values, md_timestamps = Some example_timestamps\<rparr>"

definition short_data :: metric_data where
  "short_data = \<lparr>md_values = Some [1, 2, 3, 4, 5, 6, 7, 8, 99],
                  md_timestamps = Some [0, 1, 2, 3, 4, 5, 6, 7, 8]\<rparr>"

definition const_scores :: "real \<Rightarrow> real list \<Rightarrow> py_error + real list" where
  "const_scores c d = Inr (map (\<lambda>x. c) d)"

definition failing :: "py_error \<Rightarrow> real list \<Rightarrow> py_error + real list" where
  "failing e d = Inl e"

definition no_format :: "real \<Rightarrow> string" where
  "no_format x = ''?''"

definition env_all_ok :: env where
  "env_all_ok =
     \<lparr>preprocess_time_series = Inr,
      iso_decision_function = const_scores (- 1/2),
      ae_decision_function = const_scores (5/4),
      vae_decision_function = const_scores (5/4),
      format_1f = no_format, format_2f = no_format, format_str = no_format\<rparr>"

definition env_vae_fails :: env where
  "env_vae_fails = env_all_ok\<lparr>vae_decision_function := failing RuntimeError\<rparr>"

definition env_preprocess_fails :: env where
  "env_preprocess_fails = env_all_ok\<lparr>preprocess_time_series := failing ValueError\<rparr>"



definition outlier_series :: "real list" where
  "outlier_series = 10001 # replicate 10000 0"

definition initial_detector :: detector where
  "initial_detector =
     \<lparr>data_buffer = map_of [(''cpu'', []), (''memory'', []), (''disk'', []),
                            (''network'', []), (''response_time'', [])],
      log = []\<rparr>"


text \<open>One batch of 1001 values for \<^verbatim>\<open>cpu\<close>; a buffer of 100 values that grow by one; a
  buffer of 101 values whose first lies far from the other hundred.\<close>

definition long_batch :: "(string \<times> metric_data) list" where
  "long_batch = [(''cpu'', \<lparr>md_values = Some (map real [0..<1001]), md_timestamps = None\<rparr>)]"




section \<open>Properties\<close>

subsection \<open>numpy and Python primitives\<close>

lemma np_mean_None_iff: "np_mean xs = None \<longleftrightarrow> xs = []"
  by (simp add: np_mean_def)

lemma np_var_None_iff: "np_var xs = None \<longleftrightarrow> xs = []"
  by (simp add: np_var_def np_mean_def)

lemma np_var_nonneg: "np_var xs = Some v \<Longrightarrow> 0 \<le> v"
  by (auto simp: np_var_def np_mean_def split: if_splits
           intro!: divide_nonneg_nonneg sum_list_nonneg)

lemma np_std_nonneg: "np_std xs = Some sd \<Longrightarrow> 0 \<le> sd"
  by (auto simp: np_std_def dest: np_var_nonneg)

lemma np_mean_all_equal:
  assumes "xs \<noteq> []" and "list_all (\<lambda>d. d = c) xs"
  shows "np_mean xs = Some c"
proof -
  from assms(2) have xs: "xs = replicate (length xs) c"
    by (simp add: list_all_iff replicate_length_same)
  have "sum_list xs = real (length xs) * c"
    by (subst xs) (simp add: sum_list_replicate)
  with assms(1) show ?thesis
    by (simp add: np_mean_def)
qed

lemma np_var_const:
  assumes ne: "xs \<noteq> []" and all: "\<forall>x\<in>set xs. x = c"
  shows "np_var xs = Some 0"
proof -
  from ne all have m: "np_mean xs = Some c"
    by (simp add: np_mean_all_equal list_all_iff)
  have "map (\<lambda>x. \<bar>x - c\<bar> ^ 2) xs = replicate (length xs) 0"
    using all by (simp add: map_replicate_const[symmetric] cong: map_cong)
  then show ?thesis
    using ne m by (simp add: np_var_def np_mean_def sum_list_replicate)
qed










subsection \<open>Double precision\<close>

lemma np_tanh_0: "np_tanh 0 = 0"
  by (simp add: np_tanh_def)

lemma np_tanh_range:
  assumes "0 \<le> x"
  shows "0 \<le> np_tanh x \<and> np_tanh x \<le> 1"
proof -
  define t where "t = tanh x"
  have "0 \<le> t"
    using assms by (simp add: t_def)
  moreover have "t < 1"
    unfolding t_def by (rule tanh_real_lt_1)
  ultimately have "0 \<le> (if 1 - t \<le> 1 / 2 ^ 54 then 1
                        else if 1 + t \<le> 1 / 2 ^ 54 then - 1 else t)
      \<and> (if 1 - t \<le> 1 / 2 ^ 54 then 1
          else if 1 + t \<le> 1 / 2 ^ 54 then - 1 else t) \<le> 1"
    by auto
  then show ?thesis
    by (simp only: np_tanh_def t_def)
qed

lemma np_tanh_one_iff:
  assumes "0 \<le> x"
  shows "np_tanh x = 1 \<longleftrightarrow> 1 - tanh x \<le> 1 / 2 ^ 54"
proof -
  define t where "t = tanh x"
  have "0 \<le> t"
    using assms by (simp add: t_def)
  moreover have "t < 1"
    unfolding t_def by (rule tanh_real_lt_1)
  ultimately have "(if 1 - t \<le> 1 / 2 ^ 54 then 1
                    else if 1 + t \<le> 1 / 2 ^ 54 then - 1 else t) = 1
                   \<longleftrightarrow> 1 - t \<le> 1 / 2 ^ 54"
    by auto
  then show ?thesis
    by (simp only: np_tanh_def t_def)
qed

lemma np_tanh_below:
  "\<not> 1 - tanh x \<le> 1 / 2 ^ 54 \<Longrightarrow> 0 \<le> x \<Longrightarrow> np_tanh x = tanh x"
proof -
  assume a: "\<not> 1 - tanh x \<le> 1 / 2 ^ 54" and x: "0 \<le> x"
  define t where "t = tanh x"
  have t0: "0 \<le> t"
    using x by (simp add: t_def)
  have a': "\<not> 1 - t \<le> 1 / 2 ^ 54"
    unfolding t_def by (rule a)
  from t0 have b: "\<not> 1 + t \<le> 1 / 2 ^ 54"
    by simp
  have "(if 1 - t \<le> 1 / 2 ^ 54 then 1
         else if 1 + t \<le> 1 / 2 ^ 54 then - 1 else t) = t"
    by (simp only: a' b if_False)
  then show ?thesis
    by (simp only: np_tanh_def t_def)
qed

lemma exp_66: "(2::real) ^ 66 \<le> exp 66"
proof -
  have "(2::real) \<le> exp 1"
    using exp_ge_add_one_self[of "1::real"] by simp
  then have "(2::real) ^ 66 \<le> exp 1 ^ 66"
    by (rule power_mono) simp
  also have "exp 1 ^ 66 = exp (real 66 * 1)"
    by (rule exp_of_nat_mult[symmetric])
  finally show ?thesis
    by simp
qed

lemma one_minus_tanh_eq: "1 - tanh (x::real) = 2 * exp (- 2 * x) / (1 + exp (- 2 * x))"
proof -
  define e where "e = exp (- 2 * x)"
  have e: "0 < e"
    by (simp add: e_def)
  have "tanh x = (1 - e) / (1 + e)"
    unfolding e_def by (rule tanh_real_altdef)
  moreover have "(1 - e) / (1 + e) + 2 * e / (1 + e) = 1"
    using e by (simp add: add_divide_distrib[symmetric])
  ultimately have "1 - tanh x = 2 * e / (1 + e)"
    by linarith
  then show ?thesis
    by (simp only: e_def)
qed

lemma one_minus_tanh: "1 - tanh (x::real) \<le> 2 * exp (- 2 * x)"
proof -
  have "2 * exp (- 2 * x) / (1 + exp (- 2 * x)) \<le> 2 * exp (- 2 * x) / 1"
    by (intro divide_left_mono) (simp_all add: add_pos_pos)
  then show ?thesis
    by (simp add: one_minus_tanh_eq)
qed


text \<open>From an argument of \<open>33\<close> on, \<open>1 - tanh x\<close> is below \<open>2\<^sup>-\<^sup>6\<^sup>5\<close>.\<close>

lemma tanh_near_one:
  assumes "33 \<le> (x::real)"
  shows "1 - tanh x \<le> 1 / 2 ^ 54"
proof -
  have "exp (- 2 * x) \<le> exp (- 66)"
    using assms by simp
  also have "exp (- 66) = 1 / exp (66::real)"
    by (simp add: exp_minus field_simps)
  also have "\<dots> \<le> 1 / 2 ^ 66"
    using exp_66 by (intro divide_left_mono) simp_all
  finally have "2 * exp (- 2 * x) \<le> 2 * (1 / 2 ^ 66)"
    by simp
  also have "\<dots> \<le> (1::real) / 2 ^ 54"
    by simp
  finally show ?thesis
    using one_minus_tanh[of x] by linarith
qed

lemma np_tanh_saturates: "33 \<le> x \<Longrightarrow> np_tanh x = 1"
  by (simp only: np_tanh_def tanh_near_one if_True)


lemma np_var_f64_nan_iff: "np_var_f64 xs = F64_nan \<longleftrightarrow> xs = []"
  by (simp add: np_var_f64_def Let_def)

lemma np_var_f64_finite:
  assumes "np_var_f64 xs = F64 v"
  shows "np_var xs = Some v \<and> 0 \<le> v"
proof -
  from assms have ne: "xs \<noteq> []"
    by (auto simp: np_var_f64_def)
  have sq: "(\<lambda>d. d * d) \<circ> (\<lambda>a. a - m) = (\<lambda>x. \<bar>x - m\<bar> ^ 2)" for m :: real
    by (simp add: fun_eq_iff power2_eq_square)
  from assms ne
  have "v = sum_list (map (\<lambda>x. \<bar>x - sum_list xs / real (length xs)\<bar> ^ 2) xs)
              / real (length xs)"
    by (simp add: np_var_f64_def Let_def sq split: if_splits)
  with ne have "np_var xs = Some v"
    by (simp add: np_var_def np_mean_def)
  then show ?thesis
    using np_var_nonneg by blast
qed


subsection \<open>The statistical score\<close>


text \<open>Each score is \<^verbatim>\<open>np.tanh\<close> of \<open>z / 3\<close> with \<open>z = \<bar>x - \<mu>\<bar> / (\<sigma> + 10\<^sup>-\<^sup>8)\<close>, and
  \<open>z\<close> is not negative.\<close>

lemma transformer_score_formula:
  assumes "i < length data"
  shows "\<exists>m sd. np_mean data = Some m \<and> np_std data = Some sd
           \<and> 0 \<le> \<bar>data ! i - m\<bar> / (sd + 1 / 10 ^ 8) / 3
           \<and> transformer_anomaly_detection data ts ! i
               = np_tanh (\<bar>data ! i - m\<bar> / (sd + 1 / 10 ^ 8) / 3)"
proof -
  from assms have ne: "data \<noteq> []"
    by auto
  then obtain m where m: "np_mean data = Some m"
    by (auto simp: np_mean_def)
  from ne obtain sd where sd: "np_std data = Some sd"
    by (cases "np_var data") (auto simp: np_std_def np_var_None_iff)
  define d where "d = sd + 1 / 10 ^ 8"
  have pos: "0 < d"
    using np_std_nonneg[OF sd] by (simp add: d_def)
  have eq: "\<bar>(x - m) / d\<bar> = \<bar>x - m\<bar> / d" for x
    using pos by (simp only: abs_divide abs_of_pos)
  have "transformer_anomaly_detection data ts
          = map (\<lambda>x. np_tanh (\<bar>(x - m) / d\<bar> / 3)) data"
    by (simp only: transformer_anomaly_detection_def m sd d_def option.case prod.case)
  then have "transformer_anomaly_detection data ts ! i = np_tanh (\<bar>data ! i - m\<bar> / d / 3)"
    using assms by (simp only: nth_map eq)
  then have score: "transformer_anomaly_detection data ts ! i
                 = np_tanh (\<bar>data ! i - m\<bar> / (sd + 1 / 10 ^ 8) / 3)"
    by (simp only: d_def)
  have "0 \<le> \<bar>data ! i - m\<bar> / d / 3"
    using pos by simp
  then have "0 \<le> \<bar>data ! i - m\<bar> / (sd + 1 / 10 ^ 8) / 3"
    by (simp only: d_def)
  with m sd score show ?thesis
    by blast
qed

subsection \<open>The weight of a vote is never read\<close>





subsection \<open>What \<^verbatim>\<open>detect_anomalies\<close> emits\<close>

lemma combine_results_no_votes: "combine_results ev metric [] pts acc = Inr acc"
proof (induction pts arbitrary: acc)
  case Nil
  show ?case by simp
next
  case (Cons p pts)
  obtain i v ts where "p = (i, v, ts)"
    by (cases p)
  with Cons show ?case
    by (simp add: ensemble_score_def scores_at_def np_mean_def)
qed

lemma determine_severity_flagged:
  "score > warning_threshold metric \<Longrightarrow>
   determine_severity metric score = ''critical''
   \<or> determine_severity metric score = ''warning''"
  by (auto simp: determine_severity_def warning_threshold_def Let_def split: option.splits)

lemma calculate_confidence_value:
  assumes "scores_at rs i = Inr sc" and "sc \<noteq> []"
  shows "\<exists>c. calculate_confidence rs i = Inr (Some c) \<and> 0 \<le> c \<and> c \<le> 1
           \<and> (np_var_f64 sc = F64_inf \<longrightarrow> c = 0)
           \<and> (\<forall>v. np_var_f64 sc = F64 v \<longrightarrow>
                  np_var sc = Some v \<and> c = min (1 / (1 + v)) 1 \<and> 0 < c
                  \<and> (v = 0 \<longrightarrow> c = 1))"
proof (cases "np_var_f64 sc")
  case (F64 v)
  then have v: "np_var sc = Some v" "0 \<le> v"
    using np_var_f64_finite by blast+
  from v(2) have "0 < min (1 / (1 + v)) 1" and "min (1 / (1 + v)) 1 \<le> 1"
    by simp_all
  with assms(1) F64 v show ?thesis
    by (simp add: calculate_confidence_def)
next
  case F64_inf
  with assms(1) show ?thesis
    by (simp add: calculate_confidence_def)
next
  case F64_nan
  with assms(2) show ?thesis
    by (simp add: np_var_f64_nan_iff)
qed

lemma calculate_confidence_bounds:
  assumes "ensemble_score rs i = Inr (Some score)"
  shows "\<exists>c. calculate_confidence rs i = Inr (Some c) \<and> 0 \<le> c \<and> c \<le> 1"
proof -
  from assms obtain sc where sc: "scores_at rs i = Inr sc" and m: "np_mean sc = Some score"
    by (auto simp: ensemble_score_def split: sum.splits)
  then have "sc \<noteq> []"
    by (auto simp: np_mean_def)
  with calculate_confidence_value[OF sc] show ?thesis
    by blast
qed

text \<open>Every result appended by the loop is flagged, carries a score above the warning
  threshold, the severity \<^verbatim>\<open>warning\<close> or \<^verbatim>\<open>critical\<close> that \<^verbatim>\<open>_determine_severity\<close>
  gives to that score, and a confidence in \<open>[0, 1]\<close>.\<close>

lemma combine_results_emitted:
  assumes "combine_results ev metric rs pts acc = Inr out"
      and "list_all (emitted_ok metric) acc"
  shows "list_all (emitted_ok metric) out"
  using assms
proof (induction pts arbitrary: acc)
  case Nil
  then show ?case by simp
next
  case (Cons p pts)
  obtain i v ts where p: "p = (i, v, ts)"
    by (cases p)
  show ?case
  proof (cases "ensemble_score rs i")
    case (Inl e)
    with Cons.prems p show ?thesis by simp
  next
    case (Inr sco)
    show ?thesis
    proof (cases sco)
      case None
      with Cons Inr p show ?thesis by simp
    next
      case (Some score)
      show ?thesis
      proof (cases "score > warning_threshold metric")
        case False
        with Cons Inr Some p show ?thesis by simp
      next
        case True
        from Inr Some obtain c
          where c: "calculate_confidence rs i = Inr (Some c)" "0 \<le> c" "c \<le> 1"
          using calculate_confidence_bounds by blast
        define a where "a =
          \<lparr>timestamp = ts, metric_name = metric, value = v, is_anomaly = True,
           anomaly_score = score, confidence = Some c,
           severity = determine_severity metric score,
           description = generate_description ev metric v score,
           recommendations =
             generate_recommendations metric v (determine_severity metric score)\<rparr>"
        have "emitted_ok metric a"
          using True c determine_severity_flagged[OF True]
          by (auto simp: emitted_ok_def a_def)
        with Cons.prems(2) have "list_all (emitted_ok metric) (acc @ [a])"
          by simp
        moreover from Cons.prems(1)
        have "combine_results ev metric rs pts (acc @ [a]) = Inr out"
          using p Inr Some True c by (simp add: Let_def a_def)
        ultimately show ?thesis
          using Cons.IH by blast
      qed
    qed
  qed
qed

lemma detect_anomalies_emitted:
  "list_all (emitted_ok metric) (fst (detect_anomalies ev metric md))"
proof (cases "fst (detect_anomalies_body ev metric md)")
  case (Inl e)
  then show ?thesis
    by (auto simp: detect_anomalies_def split: prod.splits)
next
  case (Inr out)
  then have "list_all (emitted_ok metric) out"
    by (auto simp: detect_anomalies_body_def Let_def
             split: if_splits sum.splits prod.splits dest: combine_results_emitted)
  with Inr show ?thesis
    by (auto simp: detect_anomalies_def split: prod.splits)
qed

lemma detect_all_log:
  "(metric, md) \<in> set ms \<Longrightarrow>
   set (snd (detect_anomalies ev metric md)) \<subseteq> set (snd (detect_all ev ms))"
  by (induction ms) (auto simp: case_prod_beta Let_def)

lemma detect_all_anomalies:
  "(metric, md) \<in> set ms \<Longrightarrow>
   set (fst (detect_anomalies ev metric md)) \<subseteq> set (fst (detect_all ev ms))"
  by (induction ms) (auto simp: case_prod_beta Let_def)

lemma process_anomalies_alert:
  "a \<in> set anomalies \<Longrightarrow> LogInfo ''Sending alert'' \<in> set (process_anomalies anomalies)"
  by (auto simp: process_anomalies_def)

lemma log_run_detection_cycle:
  "log (run_detection_cycle ev s (Inr ms)) =
     log s @ snd (detect_all ev ms)
     @ (if fst (detect_all ev ms) \<noteq> [] then process_anomalies (fst (detect_all ev ms))
        else [])
     @ [LogInfo ''Anomaly detection cycle completed'']"
  by (simp add: run_detection_cycle_def case_prod_beta Let_def)

subsection \<open>The rolling buffer\<close>

lemma keep_last_append: "keep_last c (keep_last c xs @ ys) = keep_last c (xs @ ys)"
  by (cases "length xs \<le> c") (auto simp: keep_last_def add.commute)

lemma length_keep_last: "length (keep_last c xs) \<le> c"
  by (simp add: keep_last_def)

lemma trim_keep_last:
  "(if length b > buffer_size then py_last_n buffer_size b else b) = keep_last buffer_size b"
  by (simp add: py_last_n_def keep_last_def buffer_size_def)

lemma update_buffer_same:
  "buf metric = Some b \<Longrightarrow> fst item = metric \<Longrightarrow>
   update_buffer buf item metric = Some (keep_last buffer_size (b @ get_values (snd item)))"
  by (simp add: update_buffer_def Let_def trim_keep_last del: One_nat_def)

lemma update_buffer_other:
  "fst item \<noteq> metric \<Longrightarrow> update_buffer buf item metric = buf metric"
  by (simp add: update_buffer_def Let_def split: option.splits)

lemma foldl_update_buffer:
  "buf metric = Some b \<Longrightarrow> length b \<le> buffer_size \<Longrightarrow>
   foldl update_buffer buf ms metric = Some (keep_last buffer_size (b @ inserted metric ms))"
proof (induction ms arbitrary: buf b)
  case Nil
  then show ?case
    by (simp add: inserted_def keep_last_def)
next
  case (Cons item ms)
  show ?case
  proof (cases "fst item = metric")
    case True
    have 1: "update_buffer buf item metric
               = Some (keep_last buffer_size (b @ get_values (snd item)))"
      using Cons.prems True by (simp add: update_buffer_same)
    have "foldl update_buffer (update_buffer buf item) ms metric
            = Some (keep_last buffer_size
                      (keep_last buffer_size (b @ get_values (snd item)) @ inserted metric ms))"
      using 1 length_keep_last by (rule Cons.IH)
    then show ?thesis
      using True by (simp add: keep_last_append inserted_def)
  next
    case False
    then have 1: "update_buffer buf item metric = Some b"
      using Cons.prems by (simp add: update_buffer_other)
    have "foldl update_buffer (update_buffer buf item) ms metric
            = Some (keep_last buffer_size (b @ inserted metric ms))"
      using 1 Cons.prems(2) by (rule Cons.IH)
    with False show ?thesis
      by (simp add: inserted_def)
  qed
qed

lemma update_models_buffer:
  "data_buffer s metric = Some b \<Longrightarrow> length b \<le> buffer_size \<Longrightarrow>
   data_buffer (update_models s ms) metric
     = Some (keep_last buffer_size (b @ inserted metric ms))"
  by (simp add: update_models_def foldl_update_buffer)

text \<open>After any number of calls the buffer of a metric holds the last \<^verbatim>\<open>buffer_size\<close>
  of the values it started with followed by the values inserted, in that order.\<close>

lemma foldl_update_models:
  "data_buffer s metric = Some b \<Longrightarrow> length b \<le> buffer_size \<Longrightarrow>
   data_buffer (foldl update_models s batches) metric
     = Some (keep_last buffer_size (b @ concat (map (inserted metric) batches)))"
proof (induction batches arbitrary: s b)
  case Nil
  then show ?case
    by (simp add: keep_last_def)
next
  case (Cons ms batches)
  have 1: "data_buffer (update_models s ms) metric
             = Some (keep_last buffer_size (b @ inserted metric ms))"
    using Cons.prems by (rule update_models_buffer)
  have "data_buffer (foldl update_models (update_models s ms) batches) metric
          = Some (keep_last buffer_size
                    (keep_last buffer_size (b @ inserted metric ms)
                     @ concat (map (inserted metric) batches)))"
    using 1 length_keep_last by (rule Cons.IH)
  then show ?case
    by (simp add: keep_last_append)
qed

subsection \<open>Forecasting\<close>






subsection \<open>The concrete inputs, evaluated\<close>

lemma length_example_values: "length example_values = 10"
  by (simp add: example_values_def)

lemma transformer_example:
  "transformer_anomaly_detection example_values ts = [0, 0, 0, 0, 0, 0, 0, 0, 0, 0]"
  by (simp add: transformer_anomaly_detection_def example_values_def
                np_mean_def np_std_def np_var_def np_tanh_0)

lemma env_all_ok_simps:
  "preprocess_time_series env_all_ok v = Inr v"
  "iso_decision_function env_all_ok d = Inr (map (\<lambda>x. - 1/2) d)"
  "ae_decision_function env_all_ok d = Inr (map (\<lambda>x. 5/4) d)"
  "vae_decision_function env_all_ok d = Inr (map (\<lambda>x. 5/4) d)"
  by (simp_all add: env_all_ok_def const_scores_def)

lemma env_vae_fails_simps:
  "preprocess_time_series env_vae_fails v = Inr v"
  "iso_decision_function env_vae_fails d = Inr (map (\<lambda>x. - 1/2) d)"
  "ae_decision_function env_vae_fails d = Inr (map (\<lambda>x. 5/4) d)"
  "vae_decision_function env_vae_fails d = Inl RuntimeError"
  by (simp_all add: env_vae_fails_def env_all_ok_def const_scores_def failing_def)

lemma env_preprocess_fails_simps:
  "preprocess_time_series env_preprocess_fails v = Inl ValueError"
  by (simp add: env_preprocess_fails_def env_all_ok_def failing_def)

lemma warning_threshold_simps:
  "warning_threshold ''cpu'' = 7/10"
  "warning_threshold ''memory'' = 3/4"
  by (simp_all add: warning_threshold_def thresholds_def)

lemma ensemble_all_ok:
  "run_ensemble_detection env_all_ok metric example_values ts =
     ([\<lparr>model = ''isolation_forest'',
        scores = [1/2, 1/2, 1/2, 1/2, 1/2, 1/2, 1/2, 1/2, 1/2, 1/2], weight = 3/10\<rparr>,
       \<lparr>model = ''autoencoder'',
        scores = [5/4, 5/4, 5/4, 5/4, 5/4, 5/4, 5/4, 5/4, 5/4, 5/4], weight = 3/10\<rparr>,
       \<lparr>model = ''v ae'',
        scores = [5/4, 5/4, 5/4, 5/4, 5/4, 5/4, 5/4, 5/4, 5/4, 5/4], weight = 2/10\<rparr>,
       \<lparr>model = ''transformer'',
        scores = [0, 0, 0, 0, 0, 0, 0, 0, 0, 0], weight = 2/10\<rparr>], [])"
  by (simp add: run_ensemble_detection_def env_all_ok_simps transformer_example)
     (simp add: example_values_def)

lemma ensemble_vae_fails:
  "run_ensemble_detection env_vae_fails metric example_values ts =
     ([\<lparr>model = ''isolation_forest'',
        scores = [1/2, 1/2, 1/2, 1/2, 1/2, 1/2, 1/2, 1/2, 1/2, 1/2], weight = 3/10\<rparr>,
       \<lparr>model = ''autoencoder'',
        scores = [5/4, 5/4, 5/4, 5/4, 5/4, 5/4, 5/4, 5/4, 5/4, 5/4], weight = 3/10\<rparr>],
      [LogError ''Ensemble detection failed'' RuntimeError])"
  by (simp add: run_ensemble_detection_def env_vae_fails_simps) (simp add: example_values_def)






lemma detect_vae_fails:
  "map (\<lambda>a. (timestamp a, anomaly_score a, severity a))
       (fst (detect_anomalies env_vae_fails ''cpu'' example_data))
     = [(0, 7/8, ''warning''), (1, 7/8, ''warning''), (2, 7/8, ''warning''),
        (3, 7/8, ''warning''), (4, 7/8, ''warning''), (5, 7/8, ''warning''),
        (6, 7/8, ''warning''), (7, 7/8, ''warning''), (8, 7/8, ''warning''),
        (9, 7/8, ''warning'')]"
proof -
  have sev: "determine_severity ''cpu'' (7/8) = ''warning''"
    by (simp add: determine_severity_def thresholds_def)
  show ?thesis
    by (simp add: detect_anomalies_def detect_anomalies_body_def example_data_def
                  get_values_def get_timestamps_def env_vae_fails_simps case_prod_beta
                  length_example_values ensemble_vae_fails)
       (simp add: example_values_def example_timestamps_def ensemble_score_def scores_at_def
                  np_mean_def warning_threshold_simps calculate_confidence_def sev Let_def)
qed

lemma outlier_mean: "np_mean outlier_series = Some 1"
  by (simp add: np_mean_def outlier_series_def sum_list_replicate)

lemma outlier_std: "np_std outlier_series = Some 100"
proof -
  have "np_var outlier_series = Some 10000"
    by (simp add: np_var_def outlier_mean)
       (simp add: outlier_series_def np_mean_def sum_list_replicate)
  moreover have "sqrt 10000 = 100"
    using real_sqrt_abs[of 100] by simp
  ultimately show ?thesis
    by (simp add: np_std_def)
qed

lemma outlier_in_range: "f64_series_in_range outlier_series"
  by (simp add: f64_series_in_range_def outlier_series_def sum_list_replicate)

lemma outlier_score: "transformer_anomaly_detection outlier_series ts ! 0 = 1"
proof -
  have "99 \<le> (10000::real) / (100 + 1 / 10 ^ 8)"
    by (simp add: field_simps)
  then have "33 \<le> \<bar>(10001 - 1) / (100 + 1 / 10 ^ 8)\<bar> / (3::real)"
    by simp
  then have "np_tanh (\<bar>(10001 - 1) / (100 + 1 / 10 ^ 8)\<bar> / 3) = 1"
    by (rule np_tanh_saturates)
  moreover have "transformer_anomaly_detection outlier_series ts ! 0
                   = np_tanh (\<bar>(10001 - 1) / (100 + 1 / 10 ^ 8)\<bar> / 3)"
    by (simp only: transformer_anomaly_detection_def outlier_mean outlier_std option.case
                   prod.case)
       (simp add: outlier_series_def del: power_numeral)
  ultimately show ?thesis
    by simp
qed






section \<open>The claims\<close>

text \<open>
  C1. The claim: \<^verbatim>\<open>is_anomaly\<close> is true exactly when the combined score is greater
  than or equal to the warning threshold of the metric. The code, at the boundary: for
  the metric \<^verbatim>\<open>memory\<close> and ten equal values, with model scores \<open>1/2\<close>, \<open>5/4\<close>,
  \<open>5/4\<close> and \<open>0\<close> at every point, the combined score of the last point is \<open>3/4\<close>,
  which is the warning threshold; \<^verbatim>\<open>_determine_severity\<close> would classify this score as
  \<^verbatim>\<open>warning\<close>, but \<^verbatim>\<open>detect_anomalies\<close> compares with a strict \<^verbatim>\<open>>\<close> and reports
  nothing.
\<close>

theorem score_at_warning_threshold_not_flagged:
  "ensemble_score (fst (run_ensemble_detection env_all_ok ''memory'' example_values
                          example_timestamps)) 9 = Inr (Some (3/4))
   \<and> warning_threshold ''memory'' = 3/4
   \<and> determine_severity ''memory'' (3/4) = ''warning''
   \<and> detect_anomalies env_all_ok ''memory'' example_data = ([], [])"
proof -
  have score: "ensemble_score (fst (run_ensemble_detection env_all_ok ''memory'' example_values
                 example_timestamps)) 9 = Inr (Some (3/4))"
    by (simp add: ensemble_all_ok ensemble_score_def scores_at_def np_mean_def)
  have sev: "determine_severity ''memory'' (3/4) = ''warning''"
    by (simp add: determine_severity_def thresholds_def)
  have "combine_results env_all_ok ''memory''
          (fst (run_ensemble_detection env_all_ok ''memory'' example_values example_timestamps))
          (enumerate 0 (zip example_values example_timestamps)) [] = Inr []"
    unfolding ensemble_all_ok
    by (simp add: example_values_def example_timestamps_def ensemble_score_def scores_at_def
                  np_mean_def warning_threshold_simps)
  then have det: "detect_anomalies env_all_ok ''memory'' example_data = ([], [])"
    by (simp add: detect_anomalies_def detect_anomalies_body_def example_data_def
                  get_values_def get_timestamps_def env_all_ok_simps case_prod_beta
                  length_example_values ensemble_all_ok)
  from score sev det show ?thesis
    by (simp add: warning_threshold_simps)
qed

text \<open>
  C1, as the code has it. A point whose combined score is strictly greater than the
  warning threshold of the metric (\<open>0.7\<close> for a metric without thresholds) is appended
  as a result with \<^verbatim>\<open>is_anomaly\<close> true, that score, and the severity \<^verbatim>\<open>critical\<close> when
  the score is at least the critical threshold and \<^verbatim>\<open>warning\<close> otherwise; a point
  whose score is at most the warning threshold, or \<^verbatim>\<open>nan\<close>, is not appended. So every
  result that \<^verbatim>\<open>detect_anomalies\<close> returns is flagged, has a score above the warning
  threshold and a severity other than \<^verbatim>\<open>info\<close>.
\<close>

theorem anomaly_flag_and_severity:
  "(ensemble_score rs i = Inr (Some score) \<and> score > warning_threshold metric \<longrightarrow>
      (\<exists>a. combine_results ev metric rs [(i, v, ts)] [] = Inr [a]
           \<and> is_anomaly a \<and> anomaly_score a = score
           \<and> severity a = determine_severity metric score
           \<and> (severity a = ''critical'' \<or> severity a = ''warning'')))
   \<and> (ensemble_score rs i = Inr (Some score) \<and> score \<le> warning_threshold metric \<longrightarrow>
        combine_results ev metric rs [(i, v, ts)] [] = Inr [])
   \<and> (ensemble_score rs i = Inr None \<longrightarrow>
        combine_results ev metric rs [(i, v, ts)] [] = Inr [])
   \<and> list_all (emitted_ok metric) (fst (detect_anomalies ev metric md))
   \<and> (thresholds metric = Some t \<longrightarrow>
        warning_threshold metric = warning t
        \<and> determine_severity metric score =
            (if score \<ge> critical t then ''critical''
             else if score \<ge> warning t then ''warning'' else ''info''))
   \<and> (thresholds metric = None \<longrightarrow>
        warning_threshold metric = 7/10
        \<and> determine_severity metric score =
            (if score \<ge> 9/10 then ''critical''
             else if score \<ge> 7/10 then ''warning'' else ''info''))"
proof -
  have flagged: "\<exists>a. combine_results ev metric rs [(i, v, ts)] [] = Inr [a]
           \<and> is_anomaly a \<and> anomaly_score a = score
           \<and> severity a = determine_severity metric score
           \<and> (severity a = ''critical'' \<or> severity a = ''warning'')"
    if sc: "ensemble_score rs i = Inr (Some score)" and gt: "score > warning_threshold metric"
  proof -
    from sc obtain c where "calculate_confidence rs i = Inr (Some c)"
      using calculate_confidence_bounds by blast
    with sc gt determine_severity_flagged[OF gt] show ?thesis
      by (auto simp: Let_def)
  qed
  have tiers: "determine_severity metric score =
                 (if score \<ge> critical t then ''critical''
                  else if score \<ge> warning t then ''warning'' else ''info'')"
    if "thresholds metric = Some t"
    using that by (simp add: determine_severity_def)
  have default: "determine_severity metric score =
                   (if score \<ge> 9/10 then ''critical''
                    else if score \<ge> 7/10 then ''warning'' else ''info'')"
    if "thresholds metric = None"
    using that by (simp add: determine_severity_def)
  from flagged tiers default detect_anomalies_emitted[of metric ev md] show ?thesis
    by (simp add: warning_threshold_def)
qed

theorem anomaly_flag_and_severity_witness:
  "ensemble_score (fst (run_ensemble_detection env_vae_fails ''cpu'' example_values
                          example_timestamps)) 0 = Inr (Some (7/8))
   \<and> 7/8 > warning_threshold ''cpu''
   \<and> (\<exists>a. combine_results env_vae_fails ''cpu''
              (fst (run_ensemble_detection env_vae_fails ''cpu'' example_values
                      example_timestamps)) [(0, 50, 0)] [] = Inr [a]
          \<and> is_anomaly a \<and> anomaly_score a = 7/8 \<and> severity a = ''warning'')"
proof -
  have sc: "ensemble_score (fst (run_ensemble_detection env_vae_fails ''cpu'' example_values
              example_timestamps)) 0 = Inr (Some (7/8))"
    by (simp add: ensemble_vae_fails ensemble_score_def scores_at_def np_mean_def)
  have gt: "7/8 > warning_threshold ''cpu''"
    by (simp add: warning_threshold_simps)
  have sev: "determine_severity ''cpu'' (7/8) = ''warning''"
    by (simp add: determine_severity_def thresholds_def)
  from anomaly_flag_and_severity
         [of "fst (run_ensemble_detection env_vae_fails ''cpu'' example_values
                     example_timestamps)" 0 "7/8" "''cpu''" env_vae_fails 50 0]
       sc gt sev
  show ?thesis
    by auto
qed



text \<open>
  C3. The claim puts every raw score of the statistical model below \<open>1\<close>. For a series of
  \<open>10001\<close> values, the first \<open>10001\<close> and the others \<open>0\<close>, the mean is \<open>1\<close>, the standard
  deviation is \<open>100\<close>, the first point has \<open>z / 3\<close> above \<open>33\<close>, and \<^verbatim>\<open>np.tanh\<close>
  returns \<open>1.0\<close>: the score of the first point is \<open>1\<close>.
\<close>

theorem statistical_score_reaches_one:
  "np_mean outlier_series = Some 1 \<and> np_std outlier_series = Some 100
   \<and> f64_series_in_range outlier_series
   \<and> transformer_anomaly_detection outlier_series example_timestamps ! 0 = 1"
  by (simp add: outlier_mean outlier_std outlier_in_range outlier_score)

text \<open>
  C3, as the code has it. For a series on which the mean \<open>\<mu>\<close> and the standard deviation
  \<open>\<sigma>\<close> do not overflow, the raw score of each point \<open>x\<close> is \<^verbatim>\<open>np.tanh\<close> of \<open>z / 3\<close> with
  \<open>z = \<bar>x - \<mu>\<bar> / (\<sigma> + 10\<^sup>-\<^sup>8)\<close>; it lies in \<open>[0, 1]\<close>; it is \<open>1\<close> exactly when
  \<open>tanh (z / 3)\<close> is within \<open>2\<^sup>-\<^sup>5\<^sup>4\<close> of \<open>1\<close>, and otherwise it is \<open>tanh (z / 3)\<close> and
  below \<open>1\<close>.
\<close>

theorem statistical_score_range:
  assumes "i < length data" and "f64_series_in_range data"
  shows "\<exists>m sd z. np_mean data = Some m \<and> np_std data = Some sd
           \<and> z = \<bar>data ! i - m\<bar> / (sd + 1 / 10 ^ 8)
           \<and> transformer_anomaly_detection data ts ! i = np_tanh (z / 3)
           \<and> 0 \<le> transformer_anomaly_detection data ts ! i
           \<and> transformer_anomaly_detection data ts ! i \<le> 1
           \<and> (transformer_anomaly_detection data ts ! i = 1
                \<longleftrightarrow> 1 - tanh (z / 3) \<le> 1 / 2 ^ 54)
           \<and> (\<not> 1 - tanh (z / 3) \<le> 1 / 2 ^ 54 \<longrightarrow>
                transformer_anomaly_detection data ts ! i = tanh (z / 3)
                \<and> transformer_anomaly_detection data ts ! i < 1)"
proof -
  from transformer_score_formula[OF assms(1), of ts]
  obtain m sd where m: "np_mean data = Some m" and sd: "np_std data = Some sd"
    and nn: "0 \<le> \<bar>data ! i - m\<bar> / (sd + 1 / 10 ^ 8) / 3"
    and score: "transformer_anomaly_detection data ts ! i
                  = np_tanh (\<bar>data ! i - m\<bar> / (sd + 1 / 10 ^ 8) / 3)"
    by blast
  define y where "y = \<bar>data ! i - m\<bar> / (sd + 1 / 10 ^ 8) / 3"
  have y: "0 \<le> y"
    using nn by (simp only: y_def)
  have s: "transformer_anomaly_detection data ts ! i = np_tanh y"
    using score by (simp only: y_def)
  have "0 \<le> np_tanh y \<and> np_tanh y \<le> 1"
    using y by (rule np_tanh_range)
  moreover have "np_tanh y = 1 \<longleftrightarrow> 1 - tanh y \<le> 1 / 2 ^ 54"
    using y by (rule np_tanh_one_iff)
  moreover have "np_tanh y = tanh y \<and> np_tanh y < 1" if "\<not> 1 - tanh y \<le> 1 / 2 ^ 54"
    using np_tanh_below[OF that y] tanh_real_lt_1[of y] by simp
  ultimately have "0 \<le> transformer_anomaly_detection data ts ! i
           \<and> transformer_anomaly_detection data ts ! i \<le> 1
           \<and> (transformer_anomaly_detection data ts ! i = 1 \<longleftrightarrow> 1 - tanh y \<le> 1 / 2 ^ 54)
           \<and> (\<not> 1 - tanh y \<le> 1 / 2 ^ 54 \<longrightarrow>
                transformer_anomaly_detection data ts ! i = tanh y
                \<and> transformer_anomaly_detection data ts ! i < 1)"
    by (simp only: s) blast
  with m sd s show ?thesis
    unfolding y_def by blast
qed

theorem statistical_score_range_witness:
  "(0::nat) < length outlier_series \<and> f64_series_in_range outlier_series
   \<and> (\<exists>m sd z. np_mean outlier_series = Some m \<and> np_std outlier_series = Some sd
         \<and> z = \<bar>outlier_series ! 0 - m\<bar> / (sd + 1 / 10 ^ 8)
         \<and> transformer_anomaly_detection outlier_series example_timestamps ! 0
             = np_tanh (z / 3)
         \<and> 0 \<le> transformer_anomaly_detection outlier_series example_timestamps ! 0
         \<and> transformer_anomaly_detection outlier_series example_timestamps ! 0 \<le> 1)"
proof -
  have len: "0 < length outlier_series"
    by (simp add: outlier_series_def)
  from statistical_score_range[OF len outlier_in_range, of example_timestamps]
       len outlier_in_range
  show ?thesis
    by blast
qed

text \<open>
  C4. When the series under the key \<^verbatim>\<open>values\<close> has fewer than ten values (or the key is
  absent), the \<^verbatim>\<open>try\<close> block of \<^verbatim>\<open>detect_anomalies\<close> returns the empty list without
  raising, and the call returns the empty list and logs nothing, for every metric name
  and whatever the collaborators would do.
\<close>

theorem detect_anomalies_short_series:
  assumes "length (get_values md) < 10"
  shows "detect_anomalies_body ev metric md = (Inr [], [])
         \<and> detect_anomalies ev metric md = ([], [])"
  using assms by (simp add: detect_anomalies_def detect_anomalies_body_def)

theorem detect_anomalies_short_series_witness:
  "length (get_values short_data) < 10
   \<and> detect_anomalies_body env_preprocess_fails ''cpu'' short_data = (Inr [], [])
   \<and> detect_anomalies env_preprocess_fails ''cpu'' short_data = ([], [])"
  using detect_anomalies_short_series [of short_data env_preprocess_fails "''cpu''"]
  by (simp add: get_values_def short_data_def)




text \<open>
  C6. The capacity is \<open>1000\<close>. For a metric whose buffer holds at most \<open>1000\<close> values, after
  any number of calls of \<^verbatim>\<open>_update_models\<close> the buffer still holds at most \<open>1000\<close>
  values; and when the buffer started empty and \<open>1000 + k\<close> values have been inserted in
  all, it holds exactly the last \<open>1000\<close> of them, in the order of insertion.
\<close>

theorem rolling_buffer_bounded_fifo:
  assumes "data_buffer s metric = Some b0" and "length b0 \<le> buffer_size"
  shows "\<exists>b. data_buffer (foldl update_models s batches) metric = Some b
           \<and> buffer_size = 1000 \<and> length b \<le> buffer_size
           \<and> (\<forall>k. b0 = [] \<and> length (concat (map (inserted metric) batches)) = buffer_size + k
                 \<longrightarrow> b = drop k (concat (map (inserted metric) batches))
                     \<and> length b = buffer_size)"
  using foldl_update_models[OF assms, of batches]
  by (auto simp: keep_last_def buffer_size_def)

theorem rolling_buffer_bounded_fifo_witness:
  "data_buffer initial_detector ''cpu'' = Some []
   \<and> length (concat (map (inserted ''cpu'') [long_batch])) = buffer_size + 1
   \<and> data_buffer (foldl update_models initial_detector [long_batch]) ''cpu''
       = Some (map real [1..<1001])"
proof -
  have b0: "data_buffer initial_detector ''cpu'' = Some []"
    by (simp add: initial_detector_def)
  have ins: "concat (map (inserted ''cpu'') [long_batch]) = map real [0..<1001]"
    by (simp add: inserted_def long_batch_def get_values_def)
  then have len: "length (concat (map (inserted ''cpu'') [long_batch])) = buffer_size + 1"
    by (simp add: buffer_size_def)
  from rolling_buffer_bounded_fifo[OF b0, of "[long_batch]"]
  obtain b where b: "data_buffer (foldl update_models initial_detector [long_batch]) ''cpu''
                       = Some b"
    and fifo: "\<forall>k. [] = ([]::real list)
                 \<and> length (concat (map (inserted ''cpu'') [long_batch])) = buffer_size + k
                 \<longrightarrow> b = drop k (concat (map (inserted ''cpu'') [long_batch]))
                     \<and> length b = buffer_size"
    by auto
  from fifo len have "b = drop 1 (concat (map (inserted ''cpu'') [long_batch]))"
    by blast
  then have "b = map real [1..<1001]"
    by (simp only: ins drop_map drop_upt) simp
  with b b0 len show ?thesis
    by simp
qed






text \<open>
  C9. The claim has a cycle with a scoring exception abandoned before the buffers are
  advanced. In the code the exception never reaches the cycle: with a preprocessor that
  raises, the \<^verbatim>\<open>try\<close> block of \<^verbatim>\<open>detect_anomalies\<close> is left by the exception, and the
  cycle still appends the ten collected values to the empty buffer of \<^verbatim>\<open>cpu\<close>; and so
  it does with a VAE that raises.
\<close>

theorem scoring_exception_advances_buffer:
  "detect_anomalies_body env_preprocess_fails ''cpu'' example_data = (Inl ValueError, [])
   \<and> data_buffer initial_detector ''cpu'' = Some []
   \<and> data_buffer (run_detection_cycle env_preprocess_fails initial_detector
                     (Inr [(''cpu'', example_data)])) ''cpu'' = Some example_values
   \<and> vae_decision_function env_vae_fails example_values = Inl RuntimeError
   \<and> data_buffer (run_detection_cycle env_vae_fails initial_detector
                     (Inr [(''cpu'', example_data)])) ''cpu'' = Some example_values"
  by (simp add: detect_anomalies_body_def env_preprocess_fails_simps env_vae_fails_simps
                run_detection_cycle_def update_models_def update_buffer_def
                initial_detector_def example_data_def get_values_def get_timestamps_def
                length_example_values case_prod_beta Let_def buffer_size_def)

text \<open>
  C9, as the code has it. A collection error is caught and logged by the cycle, which
  ends with every buffer as it was. A scoring exception never reaches the cycle. It is
  caught and logged inside \<^verbatim>\<open>detect_anomalies\<close>, which then returns no anomaly for
  that metric, or, when a model raises, inside \<^verbatim>\<open>_run_ensemble_detection\<close>, and then
  \<^verbatim>\<open>detect_anomalies\<close> returns what the combination of the votes gathered before
  gives. Either way the cycle goes on: its log holds the entries of every call of
  \<^verbatim>\<open>detect_anomalies\<close>, then those of the dispatch of all anomalies returned, with an
  alert for each, then the entry of completion, and the buffers are advanced exactly as
  \<^verbatim>\<open>_update_models\<close> does on the collected metrics. In all cases the cycle returns, and
  the loop of \<^verbatim>\<open>run_background_tasks\<close> goes on to its next iteration when
  \<^verbatim>\<open>process_pending_incidents\<close> returns.
\<close>

theorem detection_cycle_failures:
  "run_detection_cycle ev s (Inl e)
     = s\<lparr>log := log s @ [LogError ''Anomaly detection cycle failed'' e]\<rparr>
   \<and> data_buffer (run_detection_cycle ev s (Inl e)) = data_buffer s
   \<and> data_buffer (run_detection_cycle ev s (Inr ms)) = data_buffer (update_models s ms)
   \<and> log (run_detection_cycle ev s (Inr ms)) =
       log s @ snd (detect_all ev ms)
       @ (if fst (detect_all ev ms) \<noteq> [] then process_anomalies (fst (detect_all ev ms))
          else [])
       @ [LogInfo ''Anomaly detection cycle completed'']
   \<and> ((metric, md) \<in> set ms \<longrightarrow>
        set (fst (detect_anomalies ev metric md)) \<subseteq> set (fst (detect_all ev ms))
        \<and> set (snd (detect_anomalies ev metric md))
            \<subseteq> set (log (run_detection_cycle ev s (Inr ms))))
   \<and> (a \<in> set (fst (detect_all ev ms)) \<longrightarrow>
        LogInfo ''Sending alert'' \<in> set (log (run_detection_cycle ev s (Inr ms))))
   \<and> ((metric, md) \<in> set ms \<and> fst (detect_anomalies_body ev metric md) = Inl e' \<longrightarrow>
        fst (detect_anomalies ev metric md) = []
        \<and> LogError ''Anomaly detection failed'' e'
            \<in> set (log (run_detection_cycle ev s (Inr ms))))
   \<and> ((metric, md) \<in> set ms \<and> 10 \<le> length (get_values md)
        \<and> preprocess_time_series ev (get_values md) = Inr data
        \<and> LogError ''Ensemble detection failed'' e'
            \<in> set (snd (run_ensemble_detection ev metric data (get_timestamps md))) \<longrightarrow>
        LogError ''Ensemble detection failed'' e'
          \<in> set (log (run_detection_cycle ev s (Inr ms)))
        \<and> (\<forall>out. combine_results ev metric
                     (fst (run_ensemble_detection ev metric data (get_timestamps md)))
                     (enumerate 0 (zip (get_values md) (get_timestamps md))) [] = Inr out
                   \<longrightarrow> fst (detect_anomalies ev metric md) = out))
   \<and> run_background_tasks ev s ((collected, Inr ()) # rest)
       = run_background_tasks ev (run_detection_cycle ev s collected) rest"
proof -
  have logs: "set (snd (detect_anomalies ev metric md))
                \<subseteq> set (log (run_detection_cycle ev s (Inr ms)))"
    if "(metric, md) \<in> set ms"
    using detect_all_log[OF that, of ev] by (auto simp: log_run_detection_cycle)
  have alert: "LogInfo ''Sending alert'' \<in> set (log (run_detection_cycle ev s (Inr ms)))"
    if "a \<in> set (fst (detect_all ev ms))"
    using process_anomalies_alert[OF that] that by (auto simp: log_run_detection_cycle)
  have escaped: "fst (detect_anomalies ev metric md) = []
                 \<and> LogError ''Anomaly detection failed'' e'
                     \<in> set (log (run_detection_cycle ev s (Inr ms)))"
    if "(metric, md) \<in> set ms" and "fst (detect_anomalies_body ev metric md) = Inl e'"
  proof -
    from that(2)
    have "fst (detect_anomalies ev metric md) = []"
      and "LogError ''Anomaly detection failed'' e'
             \<in> set (snd (detect_anomalies ev metric md))"
      by (auto simp: detect_anomalies_def split: prod.splits)
    with logs[OF that(1)] show ?thesis
      by blast
  qed
  have model: "LogError ''Ensemble detection failed'' e'
                 \<in> set (log (run_detection_cycle ev s (Inr ms)))
               \<and> (\<forall>out. combine_results ev metric
                     (fst (run_ensemble_detection ev metric data (get_timestamps md)))
                     (enumerate 0 (zip (get_values md) (get_timestamps md))) [] = Inr out
                   \<longrightarrow> fst (detect_anomalies ev metric md) = out)"
    if "(metric, md) \<in> set ms" and "10 \<le> length (get_values md)"
      and "preprocess_time_series ev (get_values md) = Inr data"
      and "LogError ''Ensemble detection failed'' e'
             \<in> set (snd (run_ensemble_detection ev metric data (get_timestamps md)))"
  proof -
    from that(2,3,4)
    have "LogError ''Ensemble detection failed'' e'
            \<in> set (snd (detect_anomalies ev metric md))"
      by (auto simp: detect_anomalies_def detect_anomalies_body_def Let_def case_prod_beta
               split: sum.splits)
    moreover from that(2,3)
    have "\<forall>out. combine_results ev metric
                     (fst (run_ensemble_detection ev metric data (get_timestamps md)))
                     (enumerate 0 (zip (get_values md) (get_timestamps md))) [] = Inr out
                   \<longrightarrow> fst (detect_anomalies ev metric md) = out"
      by (auto simp: detect_anomalies_def detect_anomalies_body_def Let_def case_prod_beta)
    ultimately show ?thesis
      using logs[OF that(1)] by blast
  qed
  have rest: "run_detection_cycle ev s (Inl e)
     = s\<lparr>log := log s @ [LogError ''Anomaly detection cycle failed'' e]\<rparr>
   \<and> data_buffer (run_detection_cycle ev s (Inl e)) = data_buffer s
   \<and> data_buffer (run_detection_cycle ev s (Inr ms)) = data_buffer (update_models s ms)
   \<and> run_background_tasks ev s ((collected, Inr ()) # rest)
       = run_background_tasks ev (run_detection_cycle ev s collected) rest"
    by (simp add: run_detection_cycle_def case_prod_beta Let_def)
  from rest logs alert escaped model detect_all_anomalies[of metric md ms ev]
       log_run_detection_cycle[of ev s ms]
  show ?thesis
    by blast
qed

theorem detection_cycle_failures_witness:
  "(''cpu'', example_data) \<in> set [(''cpu'', example_data)]
   \<and> fst (detect_anomalies_body env_preprocess_fails ''cpu'' example_data) = Inl ValueError
   \<and> fst (detect_anomalies env_preprocess_fails ''cpu'' example_data) = []
   \<and> LogError ''Anomaly detection failed'' ValueError
       \<in> set (log (run_detection_cycle env_preprocess_fails initial_detector
                      (Inr [(''cpu'', example_data)])))
   \<and> data_buffer (run_detection_cycle env_preprocess_fails initial_detector
                     (Inl RuntimeError)) = data_buffer initial_detector
   \<and> LogError ''Ensemble detection failed'' RuntimeError
       \<in> set (snd (run_ensemble_detection env_vae_fails ''cpu'' example_values
                      (get_timestamps example_data)))
   \<and> LogError ''Ensemble detection failed'' RuntimeError
       \<in> set (log (run_detection_cycle env_vae_fails initial_detector
                      (Inr [(''cpu'', example_data)])))
   \<and> hd (fst (detect_anomalies env_vae_fails ''cpu'' example_data))
       \<in> set (fst (detect_all env_vae_fails [(''cpu'', example_data)]))
   \<and> LogInfo ''Sending alert''
       \<in> set (log (run_detection_cycle env_vae_fails initial_detector
                      (Inr [(''cpu'', example_data)])))"
proof -
  have body: "fst (detect_anomalies_body env_preprocess_fails ''cpu'' example_data)
                = Inl ValueError"
    by (simp add: detect_anomalies_body_def env_preprocess_fails_simps example_data_def
                  get_values_def length_example_values)
  have vals: "get_values example_data = example_values"
             "10 \<le> length (get_values example_data)"
    by (simp_all add: get_values_def example_data_def length_example_values)
  have mem: "(''cpu'', example_data) \<in> set [(''cpu'', example_data)]"
    by simp
  have pre_ok: "preprocess_time_series env_vae_fails (get_values example_data)
                  = Inr example_values"
    by (simp add: env_vae_fails_simps vals(1))
  have ens: "LogError ''Ensemble detection failed'' RuntimeError
               \<in> set (snd (run_ensemble_detection env_vae_fails ''cpu'' example_values
                              (get_timestamps example_data)))"
    by (simp add: ensemble_vae_fails)
  have "fst (detect_anomalies env_vae_fails ''cpu'' example_data) \<noteq> []"
    using detect_vae_fails by auto
  then have hd: "hd (fst (detect_anomalies env_vae_fails ''cpu'' example_data))
                   \<in> set (fst (detect_all env_vae_fails [(''cpu'', example_data)]))"
    by (simp add: case_prod_beta)
  from detection_cycle_failures
         [where ev = env_preprocess_fails and s = initial_detector and e = RuntimeError
            and ms = "[(''cpu'', example_data)]" and metric = "''cpu''"
            and md = example_data and e' = ValueError and data = example_values
            and a = "hd (fst (detect_anomalies env_vae_fails ''cpu'' example_data))"
            and collected = "Inl RuntimeError" and rest = "[]"]
       mem body
  have pre: "fst (detect_anomalies env_preprocess_fails ''cpu'' example_data) = []
             \<and> LogError ''Anomaly detection failed'' ValueError
                 \<in> set (log (run_detection_cycle env_preprocess_fails initial_detector
                                (Inr [(''cpu'', example_data)])))
             \<and> data_buffer (run_detection_cycle env_preprocess_fails initial_detector
                               (Inl RuntimeError)) = data_buffer initial_detector"
    by blast
  from detection_cycle_failures
         [where ev = env_vae_fails and s = initial_detector and e = RuntimeError
            and ms = "[(''cpu'', example_data)]" and metric = "''cpu''"
            and md = example_data and e' = RuntimeError and data = example_values
            and a = "hd (fst (detect_anomalies env_vae_fails ''cpu'' example_data))"
            and collected = "Inl RuntimeError" and rest = "[]"]
       mem vals(2) pre_ok ens hd
  have vae: "LogError ''Ensemble detection failed'' RuntimeError
               \<in> set (log (run_detection_cycle env_vae_fails initial_detector
                              (Inr [(''cpu'', example_data)])))
             \<and> LogInfo ''Sending alert''
                 \<in> set (log (run_detection_cycle env_vae_fails initial_detector
                                (Inr [(''cpu'', example_data)])))"
    by blast
  from mem body pre vae ens hd show ?thesis
    by blast
qed

text \<open>
  C10. The claim has every internal failure end in the empty list. With a VAE that
  raises after the isolation forest and the autoencoder have scored, the ensemble keeps
  the two votes, and \<^verbatim>\<open>detect_anomalies\<close> returns ten results of severity
  \<^verbatim>\<open>warning\<close> with the score \<open>(1/2 + 5/4) / 2\<close>.
\<close>

theorem model_failure_still_reports:
  "vae_decision_function env_vae_fails example_values = Inl RuntimeError
   \<and> map (\<lambda>a. (timestamp a, anomaly_score a, severity a))
         (fst (detect_anomalies env_vae_fails ''cpu'' example_data))
       = [(0, 7/8, ''warning''), (1, 7/8, ''warning''), (2, 7/8, ''warning''),
          (3, 7/8, ''warning''), (4, 7/8, ''warning''), (5, 7/8, ''warning''),
          (6, 7/8, ''warning''), (7, 7/8, ''warning''), (8, 7/8, ''warning''),
          (9, 7/8, ''warning'')]"
  by (simp add: detect_vae_fails env_vae_fails_simps)

text \<open>
  C10, as the code has it. \<^verbatim>\<open>detect_anomalies\<close> always returns a list. For a series
  of at least ten values: when the preprocessor raises, or the combination of the votes
  raises, the exception is caught and logged and the call returns the empty list; when
  the first model raises there is no vote and the call returns the empty list; when a
  later model raises, \<^verbatim>\<open>_run_ensemble_detection\<close> catches and logs the exception and
  returns the votes of the models that ran before it, and the call returns whatever the
  combination of these votes gives.
\<close>

theorem detect_anomalies_failures:
  assumes "10 \<le> length (get_values md)"
  shows "(preprocess_time_series ev (get_values md) = Inl e \<longrightarrow>
            detect_anomalies ev metric md = ([], [LogError ''Anomaly detection failed'' e]))
       \<and> (preprocess_time_series ev (get_values md) = Inr data
            \<and> iso_decision_function ev data = Inl e \<longrightarrow>
            detect_anomalies ev metric md = ([], [LogError ''Ensemble detection failed'' e]))
       \<and> (preprocess_time_series ev (get_values md) = Inr data
            \<and> combine_results ev metric
                  (fst (run_ensemble_detection ev metric data (get_timestamps md)))
                  (enumerate 0 (zip (get_values md) (get_timestamps md))) [] = Inl e \<longrightarrow>
            detect_anomalies ev metric md =
              ([], snd (run_ensemble_detection ev metric data (get_timestamps md))
                   @ [LogError ''Anomaly detection failed'' e]))
       \<and> (preprocess_time_series ev (get_values md) = Inr data
            \<and> combine_results ev metric
                  (fst (run_ensemble_detection ev metric data (get_timestamps md)))
                  (enumerate 0 (zip (get_values md) (get_timestamps md))) [] = Inr out \<longrightarrow>
            detect_anomalies ev metric md =
              (out, snd (run_ensemble_detection ev metric data (get_timestamps md))))
       \<and> (iso_decision_function ev d = Inr iso_scores
            \<and> ae_decision_function ev d = Inl e \<longrightarrow>
            run_ensemble_detection ev metric d ts =
              ([\<lparr>model = ''isolation_forest'', scores = map uminus iso_scores,
                 weight = 3/10\<rparr>],
               [LogError ''Ensemble detection failed'' e]))
       \<and> (iso_decision_function ev d = Inr iso_scores
            \<and> ae_decision_function ev d = Inr ae_scores
            \<and> vae_decision_function ev d = Inl e \<longrightarrow>
            run_ensemble_detection ev metric d ts =
              ([\<lparr>model = ''isolation_forest'', scores = map uminus iso_scores,
                 weight = 3/10\<rparr>,
                \<lparr>model = ''autoencoder'', scores = ae_scores, weight = 3/10\<rparr>],
               [LogError ''Ensemble detection failed'' e]))"
  using assms
  by (auto simp: detect_anomalies_def detect_anomalies_body_def run_ensemble_detection_def
                 combine_results_no_votes Let_def split: prod.splits)

theorem detect_anomalies_failures_witness:
  "10 \<le> length (get_values example_data)
   \<and> preprocess_time_series env_preprocess_fails (get_values example_data) = Inl ValueError
   \<and> detect_anomalies env_preprocess_fails ''cpu'' example_data
       = ([], [LogError ''Anomaly detection failed'' ValueError])"
proof -
  have len: "10 \<le> length (get_values example_data)"
    by (simp add: get_values_def example_data_def length_example_values)
  from detect_anomalies_failures[OF len, of env_preprocess_fails ValueError] len
  show ?thesis
    by (simp add: env_preprocess_fails_simps)
qed

end
